theory Spec2Isabelle
  imports Main
begin

section \<open>The header \<open>libgui/graphics/PushButtonControl.h\<close>\<close>

text \<open>
  The repository's only source file is a C++ header that declares the class
  \<open>QtHandles::PushButtonControl\<close>. It has no function bodies, so what can be said
  about it is said about its text and about the declarations that text denotes. The file
  is embedded as the list of its lines, character for character; the last line
  (\<open>#endif\<close>) is not followed by a newline character. Everything below is computed from
  this list: comment removal, the preprocessor's conditional inclusion, tokens, and the
  declarations.
\<close>

definition PushButtonControl_h :: "string list" where
  "PushButtonControl_h = [
    ''/*'',
    '''',
    ''Copyright (C) 2011-2014 Michael Goffioul'',
    '''',
    ''This file is part of Octave.'',
    '''',
    ''Octave is free software; you can redistribute it and/or modify it'',
    ''under the terms of the GNU General Public License as published by the'',
    ''Free Software Foundation; either version 3 of the License, or (at your'',
    ''option) any later version.'',
    '''',
    ''Octave is distributed in the hope that it will be useful, but WITHOUT'',
    ''ANY WARRANTY; without even the implied warranty of MERCHANTABILITY or'',
    ''FITNESS FOR A PARTICULAR PURPOSE.  See the GNU General Public License'',
    ''for more details.'',
    '''',
    ''You should have received a copy of the GNU General Public License'',
    ''along with Octave; see the file COPYING.  If not, see'',
    ''<http://www.gnu.org/licenses/>.'',
    '''',
    ''*/'',
    '''',
    ''#ifndef __QtHandles_PushButtonControl__'',
    ''#define __QtHandles_PushButtonControl__ 1'',
    '''',
    ''#include \"ButtonControl.h\"'',
    '''',
    ''class QPushButton;'',
    '''',
    ''//////////////////////////////////////////////////////////////////////////////'',
    '''',
    ''namespace QtHandles'',
    ''{'',
    '''',
    ''//////////////////////////////////////////////////////////////////////////////'',
    '''',
    ''class PushButtonControl : public ButtonControl'',
    ''{'',
    ''public:'',
    ''  PushButtonControl (const graphics_object& go, QPushButton* btn);'',
    ''  ~PushButtonControl (void);'',
    '''',
    ''  static PushButtonControl* create (const graphics_object& go);'',
    '''',
    ''protected:'',
    ''  void update (int pId);'',
    ''};'',
    '''',
    ''//////////////////////////////////////////////////////////////////////////////'',
    '''',
    ''}; // namespace QtHandles'',
    '''',
    ''//////////////////////////////////////////////////////////////////////////////'',
    '''',
    ''#endif''
  ]"

section \<open>Comments\<close>

text \<open>
  A block comment \<open>/* ... */\<close> may span lines and is replaced by one space; a line
  comment \<open>// ...\<close> runs to the end of its line. The flag says whether the scan is
  inside a block comment. String literals are not tracked.
\<close>

fun strip_line :: "bool \<Rightarrow> string \<Rightarrow> string \<times> bool" where
  "strip_line inb [] = ([], inb)"
| "strip_line True [a] = ([], True)"
| "strip_line False [a] = ([a], False)"
| "strip_line True (a # b # r) =
     (if a = CHR ''*'' \<and> b = CHR ''/''
      then (case strip_line False r of (s, st) \<Rightarrow> (CHR '' '' # s, st))
      else strip_line True (b # r))"
| "strip_line False (a # b # r) =
     (if a = CHR ''/'' \<and> b = CHR ''*'' then strip_line True r
      else if a = CHR ''/'' \<and> b = CHR ''/'' then ([], False)
      else (case strip_line False (b # r) of (s, st) \<Rightarrow> (a # s, st)))"

fun strip_from :: "bool \<Rightarrow> string list \<Rightarrow> string list" where
  "strip_from inb [] = []"
| "strip_from inb (l # ls) =
     (case strip_line inb l of (s, st) \<Rightarrow> s # strip_from st ls)"

definition strip_comments :: "string list \<Rightarrow> string list" where
  "strip_comments ls = strip_from False ls"

section \<open>Preprocessor lines\<close>

definition is_space :: "char \<Rightarrow> bool" where
  "is_space c = (c = CHR '' '' \<or> c = CHR 0x09)"

definition trim_left :: "string \<Rightarrow> string" where
  "trim_left s = dropWhile is_space s"

definition trim :: "string \<Rightarrow> string" where
  "trim s = rev (trim_left (rev (trim_left s)))"

definition first_word :: "string \<Rightarrow> string" where
  "first_word s = takeWhile (\<lambda>c. \<not> is_space c) (trim_left s)"

definition after_word :: "string \<Rightarrow> string" where
  "after_word s = trim (dropWhile (\<lambda>c. \<not> is_space c) (trim_left s))"

datatype include_form = Quoted | Angled

datatype pp_line =
    IfNDef string
  | IfDef string
  | Define string string
  | Undef string
  | EndIf
  | Inclusion include_form string
  | Unsupported string
  | Code string

text \<open>
  The operand of \<open>#include\<close>: \<open>"name"\<close> or \<open><name>\<close>; anything else is not
  supported.
\<close>

definition include_operand :: "string \<Rightarrow> pp_line" where
  "include_operand s =
     (if 2 \<le> length s \<and> hd s = CHR 0x22 \<and> last s = CHR 0x22
        then Inclusion Quoted (butlast (tl s))
      else if 2 \<le> length s \<and> hd s = CHR ''<'' \<and> last s = CHR ''>''
        then Inclusion Angled (butlast (tl s))
      else Unsupported s)"

text \<open>
  A line whose first character after white space is \<open>#\<close> is a directive; the
  directives read are \<open>#ifndef\<close>, \<open>#ifdef\<close>, \<open>#define\<close>, \<open>#undef\<close>,
  \<open>#endif\<close> and \<open>#include\<close>. Every other directive is kept as \<open>Unsupported\<close>, and
  preprocessing fails on it.
\<close>

definition classify :: "string \<Rightarrow> pp_line" where
  "classify l =
     (let t = trim_left l in
      if t = [] \<or> hd t \<noteq> CHR ''#'' then Code l
      else
        (let d = first_word (tl t); rest = after_word (tl t) in
         if d = ''ifndef'' then IfNDef (first_word rest)
         else if d = ''ifdef'' then IfDef (first_word rest)
         else if d = ''define'' then Define (first_word rest) (after_word rest)
         else if d = ''undef'' then Undef (first_word rest)
         else if d = ''endif'' then EndIf
         else if d = ''include'' then include_operand rest
         else Unsupported t))"

definition pp_lines :: "string list \<Rightarrow> pp_line list" where
  "pp_lines ls = map classify (strip_comments ls)"

section \<open>Conditional inclusion\<close>

text \<open>
  The macro table is an association list from macro names to replacement texts; the most
  recent definition comes first.
\<close>

type_synonym macros = "(string \<times> string) list"

definition defined :: "macros \<Rightarrow> string \<Rightarrow> bool" where
  "defined m n = (map_of m n \<noteq> None)"

text \<open>
  The stack of open conditionals holds, for each, whether its group is taken; lines are
  processed only when every open group is taken.
\<close>

fun active :: "bool list \<Rightarrow> bool" where
  "active [] = True"
| "active (c # cs) = (c \<and> active cs)"

text \<open>
  \<open>preprocess inc cs m ls\<close> runs the lines \<open>ls\<close> with the conditional stack \<open>cs\<close> and
  the macro table \<open>m\<close>. It returns the lines that reach the compiler and the final macro
  table, or \<open>None\<close> on an unsupported directive, on \<open>#endif\<close> without an open
  conditional and on a conditional left open. The files named by \<open>#include\<close> are not
  part of the repository's sources: an inclusion is kept in the output as it stands, and
  the parameter \<open>inc\<close> gives what the included file does to the macro table. Macro
  expansion inside code lines is not modelled.
\<close>

fun preprocess ::
  "(string \<Rightarrow> macros \<Rightarrow> macros) \<Rightarrow> bool list \<Rightarrow> macros \<Rightarrow> pp_line list
     \<Rightarrow> (pp_line list \<times> macros) option" where
  "preprocess inc cs m [] = (if cs = [] then Some ([], m) else None)"
| "preprocess inc cs m (l # ls) =
     (case l of
        IfNDef n \<Rightarrow> preprocess inc ((\<not> defined m n) # cs) m ls
      | IfDef n \<Rightarrow> preprocess inc (defined m n # cs) m ls
      | EndIf \<Rightarrow> (if cs = [] then None else preprocess inc (tl cs) m ls)
      | Define n v \<Rightarrow> preprocess inc cs (if active cs then (n, v) # m else m) ls
      | Undef n \<Rightarrow>
          preprocess inc cs (if active cs then filter (\<lambda>d. fst d \<noteq> n) m else m) ls
      | Inclusion f n \<Rightarrow>
          (if active cs
           then (case preprocess inc cs (inc n m) ls of
                   None \<Rightarrow> None
                 | Some (out, m') \<Rightarrow> Some (Inclusion f n # out, m'))
           else preprocess inc cs m ls)
      | Unsupported s \<Rightarrow> None
      | Code s \<Rightarrow>
          (if active cs
           then (case preprocess inc cs m ls of
                   None \<Rightarrow> None
                 | Some (out, m') \<Rightarrow> Some (Code s # out, m'))
           else preprocess inc cs m ls))"

definition guard_macro :: string where
  "guard_macro = ''__QtHandles_PushButtonControl__''"

definition is_conditional :: "pp_line \<Rightarrow> bool" where
  "is_conditional l = (case l of IfNDef n \<Rightarrow> True | IfDef n \<Rightarrow> True | EndIf \<Rightarrow> True | _ \<Rightarrow> False)"

definition is_blank :: "pp_line \<Rightarrow> bool" where
  "is_blank l = (case l of Code s \<Rightarrow> trim_left s = [] | _ \<Rightarrow> False)"

section \<open>Tokens\<close>

text \<open>
  An identifier (or number) is a maximal run of letters, digits and underscores; white
  space separates tokens; every other character is a token of its own. Each line is cut
  by itself, so a line end separates tokens too.
\<close>

definition is_ident_char :: "char \<Rightarrow> bool" where
  "is_ident_char c =
     (c \<in> set ''abcdefghijklmnopqrstuvwxyzABCDEFGHIJKLMNOPQRSTUVWXYZ0123456789_'')"

definition flush :: "string \<Rightarrow> string list" where
  "flush acc = (if acc = [] then [] else [rev acc])"

fun lex :: "string \<Rightarrow> string \<Rightarrow> string list" where
  "lex acc [] = flush acc"
| "lex acc (c # cs) =
     (if is_ident_char c then lex (c # acc) cs
      else flush acc @ (if is_space c then [] else [[c]]) @ lex [] cs)"

definition tokens :: "string \<Rightarrow> string list" where
  "tokens s = lex [] s"

text \<open>
  What the compiler sees of a translation unit: the tokens of the code lines, and the
  inclusions, whose files are outside the repository's sources.
\<close>

datatype tu_item = Included include_form string | Token string

fun tu_items :: "pp_line list \<Rightarrow> tu_item list" where
  "tu_items [] = []"
| "tu_items (l # ls) =
     (case l of
        Code s \<Rightarrow> map Token (tokens s) @ tu_items ls
      | Inclusion f n \<Rightarrow> Included f n # tu_items ls
      | _ \<Rightarrow> tu_items ls)"

fun code_tokens :: "tu_item list \<Rightarrow> string list" where
  "code_tokens [] = []"
| "code_tokens (Token t # r) = t # code_tokens r"
| "code_tokens (Included f n # r) = code_tokens r"

section \<open>Including the header\<close>

definition include_once ::
  "(string \<Rightarrow> macros \<Rightarrow> macros) \<Rightarrow> macros \<Rightarrow> (tu_item list \<times> macros) option" where
  "include_once inc m =
     (case preprocess inc [] m (pp_lines PushButtonControl_h) of
        None \<Rightarrow> None
      | Some (out, m') \<Rightarrow> Some (tu_items out, m'))"

text \<open>
  Including the header several times in one translation unit. Each element of the list
  stands for the code in front of one inclusion, as what that code does to the macro
  table; the result collects what the compiler sees of the header over all inclusions.
\<close>

fun include_seq ::
  "(string \<Rightarrow> macros \<Rightarrow> macros) \<Rightarrow> (macros \<Rightarrow> macros) list \<Rightarrow> macros
     \<Rightarrow> (tu_item list \<times> macros) option" where
  "include_seq inc [] m = Some ([], m)"
| "include_seq inc (g # gs) m =
     (case include_once inc (g m) of
        None \<Rightarrow> None
      | Some (out, m') \<Rightarrow>
          (case include_seq inc gs m' of
             None \<Rightarrow> None
           | Some (out', m'') \<Rightarrow> Some (out @ out', m'')))"

text \<open>
  The code in front of an inclusion, given as source lines: what preprocessing these
  lines does to the macro table (the table is left as it is when they cannot be
  preprocessed). \<open>no_effect\<close> is an included file that leaves the macro table alone.
\<close>

definition run_lines ::
  "(string \<Rightarrow> macros \<Rightarrow> macros) \<Rightarrow> string list \<Rightarrow> macros \<Rightarrow> macros" where
  "run_lines inc ls m =
     (case preprocess inc [] m (pp_lines ls) of None \<Rightarrow> m | Some (out, m') \<Rightarrow> m')"

definition no_effect :: "string \<Rightarrow> macros \<Rightarrow> macros" where
  "no_effect f m = m"

section \<open>Statements and blocks\<close>

text \<open>
  The token stream is cut at \<open>;\<close> and grouped by braces: a \<open>Simple\<close> chunk is the
  tokens of a statement ended by \<open>;\<close>, a \<open>Block\<close> is the tokens in front of a \<open>{\<close>
  together with the chunks inside the braces. Tokens left over in front of a \<open>}\<close> or at the
  end, and unbalanced braces, are errors.
\<close>

datatype chunk = Simple "string list" | Block "string list" "chunk list"

fun build ::
  "string list \<Rightarrow> chunk list \<Rightarrow> (string list \<times> chunk list) list \<Rightarrow> string list
     \<Rightarrow> chunk list option" where
  "build acc fin stack [] = (if acc = [] \<and> stack = [] then Some (rev fin) else None)"
| "build acc fin stack (t # ts) =
     (if t = ''{'' then build [] [] ((rev acc, fin) # stack) ts
      else if t = ''}'' then
        (case stack of
           [] \<Rightarrow> None
         | (h, outer) # st \<Rightarrow>
             if acc = [] then build [] (Block h (rev fin) # outer) st ts else None)
      else if t = '';'' then build [] (Simple (rev acc) # fin) stack ts
      else build (t # acc) fin stack ts)"

definition chunks :: "string list \<Rightarrow> chunk list option" where
  "chunks ts = build [] [] [] ts"

section \<open>Declarations\<close>

text \<open>
  The declarations read are those of a class interface: forward declarations of classes,
  namespaces, class definitions with base classes, access labels, constructors,
  destructors, member functions (declared, or defined with a body) and data members.
  Types are a name, optionally \<open>const\<close>, optionally a pointer or a reference. Whatever
  is outside this fragment of C++ makes the parse fail with \<open>None\<close>.
\<close>

definition cxx_keywords :: "string list" where
  "cxx_keywords =
     [''class'', ''struct'', ''union'', ''enum'', ''namespace'', ''template'', ''typedef'',
      ''using'', ''friend'', ''operator'', ''public'', ''protected'', ''private'',
      ''static'', ''virtual'', ''explicit'', ''inline'', ''const'', ''throw'', ''noexcept'']"

definition is_digit :: "char \<Rightarrow> bool" where
  "is_digit c = (c \<in> set ''0123456789'')"

definition is_ident :: "string \<Rightarrow> bool" where
  "is_ident t =
     (t \<noteq> [] \<and> list_all is_ident_char t \<and> \<not> is_digit (hd t) \<and> t \<notin> set cxx_keywords)"

datatype indirection = ByValue | Pointer | Reference

record cxx_type =
  ty_const :: bool
  ty_name :: string
  ty_ind :: indirection

definition parse_type :: "string list \<Rightarrow> cxx_type option" where
  "parse_type ts =
     (let c = (ts \<noteq> [] \<and> hd ts = ''const''); r = (if c then tl ts else ts) in
      case r of
        [n] \<Rightarrow>
          if is_ident n then Some \<lparr>ty_const = c, ty_name = n, ty_ind = ByValue\<rparr> else None
      | [n, p] \<Rightarrow>
          if is_ident n \<and> p = ''*''
            then Some \<lparr>ty_const = c, ty_name = n, ty_ind = Pointer\<rparr>
          else if is_ident n \<and> p = ''&''
            then Some \<lparr>ty_const = c, ty_name = n, ty_ind = Reference\<rparr>
          else None
      | _ \<Rightarrow> None)"

text \<open>A parameter is a type, optionally followed by the parameter's name.\<close>

definition parse_param :: "string list \<Rightarrow> (cxx_type \<times> string option) option" where
  "parse_param ts =
     (if ts \<noteq> [] \<and> is_ident (last ts) \<and> parse_type (butlast ts) \<noteq> None
        then map_option (\<lambda>ty. (ty, Some (last ts))) (parse_type (butlast ts))
      else map_option (\<lambda>ty. (ty, None)) (parse_type ts))"

fun split_on :: "'a \<Rightarrow> 'a list \<Rightarrow> 'a list \<Rightarrow> 'a list list" where
  "split_on sep acc [] = [rev acc]"
| "split_on sep acc (x # xs) =
     (if x = sep then rev acc # split_on sep [] xs else split_on sep (x # acc) xs)"

text \<open>The parameter list between the parentheses; \<open>(void)\<close> and \<open>()\<close> are empty.\<close>

definition parse_params :: "string list \<Rightarrow> (cxx_type \<times> string option) list option" where
  "parse_params ts =
     (if ts = [] \<or> ts = [''void''] then Some []
      else those (map parse_param (split_on '','' [] ts)))"

datatype access = Public | Protected | Private

definition access_of :: "string \<Rightarrow> access option" where
  "access_of t =
     (if t = ''public'' then Some Public
      else if t = ''protected'' then Some Protected
      else if t = ''private'' then Some Private
      else None)"

datatype member_kind = Constructor | Destructor | Method | Field

text \<open>
  A member of a class. \<open>m_type\<close> is the return type of a member function or the type
  of a data member (constructors and destructors have none); \<open>m_trailing\<close> holds the
  tokens after the parameter list's closing parenthesis, where a \<open>const\<close> qualifier, an
  exception specification (\<open>throw (...)\<close>, \<open>noexcept\<close>) or \<open>= 0\<close> would stand;
  \<open>m_defined\<close> says whether the member is declared with a body.
\<close>

record member =
  m_access :: access
  m_kind :: member_kind
  m_name :: string
  m_static :: bool
  m_virtual :: bool
  m_type :: "cxx_type option"
  m_params :: "(cxx_type \<times> string option) list"
  m_trailing :: "string list"
  m_defined :: bool

definition specifiers :: "string list" where
  "specifiers = [''static'', ''virtual'', ''explicit'', ''inline'']"

fun strip_specifiers :: "string list \<Rightarrow> string list \<times> string list" where
  "strip_specifiers [] = ([], [])"
| "strip_specifiers (t # ts) =
     (if t \<in> set specifiers
      then (case strip_specifiers ts of (sp, r) \<Rightarrow> (t # sp, r))
      else ([], t # ts))"

text \<open>
  \<open>parse_member cname a body ts\<close> reads the tokens \<open>ts\<close> of one member of the class
  \<open>cname\<close> under the access \<open>a\<close>; \<open>body\<close> says that a brace block follows the tokens.
\<close>

definition parse_member :: "string \<Rightarrow> access \<Rightarrow> bool \<Rightarrow> string list \<Rightarrow> member option" where
  "parse_member cname a body ts =
     (case strip_specifiers ts of (sp, r) \<Rightarrow>
        (let st = (''static'' \<in> set sp); vi = (''virtual'' \<in> set sp) in
         if ''('' \<in> set r then
           (let front = takeWhile (\<lambda>t. t \<noteq> ''('') r;
                inside = tl (dropWhile (\<lambda>t. t \<noteq> ''('') r);
                ps = takeWhile (\<lambda>t. t \<noteq> '')'') inside;
                closing = dropWhile (\<lambda>t. t \<noteq> '')'') inside
            in
            if closing = [] then None
            else
              (case parse_params ps of
                 None \<Rightarrow> None
               | Some params \<Rightarrow>
                   if front = [cname] then
                     Some \<lparr>m_access = a, m_kind = Constructor, m_name = cname, m_static = st,
                           m_virtual = vi, m_type = None, m_params = params,
                           m_trailing = tl closing, m_defined = body\<rparr>
                   else if front = [''~'', cname] then
                     Some \<lparr>m_access = a, m_kind = Destructor, m_name = ''~'' @ cname,
                           m_static = st, m_virtual = vi, m_type = None, m_params = params,
                           m_trailing = tl closing, m_defined = body\<rparr>
                   else if front \<noteq> [] \<and> is_ident (last front) then
                     (case parse_type (butlast front) of
                        None \<Rightarrow> None
                      | Some ty \<Rightarrow>
                          Some \<lparr>m_access = a, m_kind = Method, m_name = last front,
                                m_static = st, m_virtual = vi, m_type = Some ty,
                                m_params = params, m_trailing = tl closing,
                                m_defined = body\<rparr>)
                   else None))
         else if body then None
         else if r \<noteq> [] \<and> is_ident (last r) then
           (case parse_type (butlast r) of
              None \<Rightarrow> None
            | Some ty \<Rightarrow>
                Some \<lparr>m_access = a, m_kind = Field, m_name = last r, m_static = st,
                      m_virtual = vi, m_type = Some ty, m_params = [], m_trailing = [],
                      m_defined = False\<rparr>)
         else None))"

text \<open>Access labels (\<open>public:\<close>, \<open>protected:\<close>, \<open>private:\<close>) in front of a member.\<close>

fun strip_labels :: "access \<Rightarrow> string list \<Rightarrow> access \<times> string list" where
  "strip_labels a (t # c # r) =
     (case access_of t of
        Some a' \<Rightarrow> if c = '':'' then strip_labels a' r else (a, t # c # r)
      | None \<Rightarrow> (a, t # c # r))"
| "strip_labels a ts = (a, ts)"

fun parse_members :: "string \<Rightarrow> access \<Rightarrow> chunk list \<Rightarrow> member list option" where
  "parse_members cname a [] = Some []"
| "parse_members cname a (Simple ts # r) =
     (case strip_labels a ts of (a', ts') \<Rightarrow>
        if ts' = [] then parse_members cname a' r
        else
          (case parse_member cname a' False ts' of
             None \<Rightarrow> None
           | Some m \<Rightarrow>
               (case parse_members cname a' r of
                  None \<Rightarrow> None
                | Some ms \<Rightarrow> Some (m # ms))))"
| "parse_members cname a (Block h b # r) =
     (case strip_labels a h of (a', h') \<Rightarrow>
        (case parse_member cname a' True h' of
           None \<Rightarrow> None
         | Some m \<Rightarrow>
             (case parse_members cname a' r of
                None \<Rightarrow> None
              | Some ms \<Rightarrow> Some (m # ms))))"

text \<open>
  A base class is named with or without an access specifier; the bases of a \<open>class\<close>
  are private by default.
\<close>

definition parse_base :: "string list \<Rightarrow> (access \<times> string) option" where
  "parse_base ts =
     (case ts of
        [b] \<Rightarrow> if is_ident b then Some (Private, b) else None
      | [a, b] \<Rightarrow>
          (case access_of a of
             Some acc \<Rightarrow> if is_ident b then Some (acc, b) else None
           | None \<Rightarrow> None)
      | _ \<Rightarrow> None)"

definition parse_class_head :: "string list \<Rightarrow> (string \<times> (access \<times> string) list) option" where
  "parse_class_head h =
     (case h of
        [k, n] \<Rightarrow> if k = ''class'' \<and> is_ident n then Some (n, []) else None
      | k # n # c # bs \<Rightarrow>
          if k = ''class'' \<and> is_ident n \<and> c = '':''
          then map_option (\<lambda>l. (n, l)) (those (map parse_base (split_on '','' [] bs)))
          else None
      | _ \<Rightarrow> None)"

record cxx_class =
  c_name :: string
  c_bases :: "(access \<times> string) list"
  c_members :: "member list"

datatype decl =
    FwdClass string
  | ClassDef cxx_class
  | Namespace string "decl list"
  | EmptyDecl

definition namespace_head :: "string list \<Rightarrow> string option" where
  "namespace_head h =
     (case h of
        [k, n] \<Rightarrow> if k = ''namespace'' \<and> is_ident n then Some n else None
      | _ \<Rightarrow> None)"

text \<open>
  The declarations of a scope. A lone \<open>;\<close> is an empty declaration. The members of a
  \<open>class\<close> are private until an access label says otherwise; a class definition ends
  with the \<open>;\<close> after its closing brace, and declarators between the two are not
  supported.
\<close>

fun parse_decls :: "chunk list \<Rightarrow> decl list option" where
  "parse_decls [] = Some []"
| "parse_decls (Simple ts # r) =
     (if ts = [] then map_option ((#) EmptyDecl) (parse_decls r)
      else
        (case ts of
           [k, n] \<Rightarrow>
             if k = ''class'' \<and> is_ident n
             then map_option ((#) (FwdClass n)) (parse_decls r)
             else None
         | _ \<Rightarrow> None))"
| "parse_decls (Block h b # r) =
     (case namespace_head h of
        Some n \<Rightarrow>
          (case parse_decls b of
             None \<Rightarrow> None
           | Some ds \<Rightarrow> map_option ((#) (Namespace n ds)) (parse_decls r))
      | None \<Rightarrow>
          (case parse_class_head h of
             None \<Rightarrow> None
           | Some (n, bases) \<Rightarrow>
               (case parse_members n Private b of
                  None \<Rightarrow> None
                | Some ms \<Rightarrow>
                    (case r of
                       Simple [] # r' \<Rightarrow>
                         map_option
                           ((#) (ClassDef \<lparr>c_name = n, c_bases = bases, c_members = ms\<rparr>))
                           (parse_decls r')
                     | _ \<Rightarrow> None))))"

section \<open>The header's translation unit\<close>

text \<open>
  The header in a translation unit that starts with an empty macro table and includes
  the header once; the included file is taken to leave the macro table as it is. The
  items the compiler sees, the macro table afterwards, and the declarations the tokens
  denote.
\<close>

definition header_items :: "tu_item list" where
  "header_items = (case include_once (\<lambda>f m. m) [] of None \<Rightarrow> [] | Some (out, m) \<Rightarrow> out)"

definition header_macros :: "macros" where
  "header_macros = (case include_once (\<lambda>f m. m) [] of None \<Rightarrow> [] | Some (out, m) \<Rightarrow> m)"

definition header_decls :: "decl list option" where
  "header_decls =
     (case include_once (\<lambda>f m. m) [] of
        None \<Rightarrow> None
      | Some (out, m) \<Rightarrow>
          (case chunks (code_tokens out) of
             None \<Rightarrow> None
           | Some cs \<Rightarrow> parse_decls cs))"

text \<open>The classes defined by a declaration, each with the namespaces around it.\<close>

fun decl_classes :: "string list \<Rightarrow> decl \<Rightarrow> (string list \<times> cxx_class) list" where
  "decl_classes ns (ClassDef c) = [(ns, c)]"
| "decl_classes ns (Namespace n ds) = concat (map (decl_classes (ns @ [n])) ds)"
| "decl_classes ns (FwdClass n) = []"
| "decl_classes ns EmptyDecl = []"

definition header_classes :: "(string list \<times> cxx_class) list" where
  "header_classes =
     (case header_decls of None \<Rightarrow> [] | Some ds \<Rightarrow> concat (map (decl_classes []) ds))"

definition class_named :: "string \<Rightarrow> cxx_class option" where
  "class_named n = find (\<lambda>c. c_name c = n) (map snd header_classes)"

text \<open>
  An exception specification is a \<open>throw\<close> or \<open>noexcept\<close> after the parameter list.
\<close>

definition exception_spec :: "member \<Rightarrow> bool" where
  "exception_spec m = (''throw'' \<in> set (m_trailing m) \<or> ''noexcept'' \<in> set (m_trailing m))"

definition const_ref :: "string \<Rightarrow> cxx_type" where
  "const_ref n = \<lparr>ty_const = True, ty_name = n, ty_ind = Reference\<rparr>"

definition pointer_to :: "string \<Rightarrow> cxx_type" where
  "pointer_to n = \<lparr>ty_const = False, ty_name = n, ty_ind = Pointer\<rparr>"

definition by_value :: "string \<Rightarrow> cxx_type" where
  "by_value n = \<lparr>ty_const = False, ty_name = n, ty_ind = ByValue\<rparr>"

text \<open>
  Where a class uses a type name in a parameter: the member, the parameter's position
  (from 0) and how the type is used there.
\<close>

definition param_uses :: "string \<Rightarrow> cxx_class \<Rightarrow> (string \<times> nat \<times> indirection) list" where
  "param_uses n c =
     concat (map (\<lambda>m.
       map (\<lambda>(i, p). (m_name m, i, ty_ind (fst p)))
         (filter (\<lambda>(i, p). ty_name (fst p) = n) (enumerate 0 (m_params m))))
       (c_members c))"

definition is_inclusion :: "pp_line \<Rightarrow> bool" where
  "is_inclusion l = (case l of Inclusion f n \<Rightarrow> True | _ \<Rightarrow> False)"

definition reaches_compiler :: "pp_line \<Rightarrow> bool" where
  "reaches_compiler l = (case l of Code s \<Rightarrow> True | Inclusion f n \<Rightarrow> True | _ \<Rightarrow> False)"

section \<open>Evaluating the header\<close>

text \<open>
  The lines of the header after comment removal, classified. The licence comment of
  lines 1 to 21 leaves one space on line 21; the directives are on lines 23, 24, 26
  and 55.
\<close>

lemma pp_lines_header:
  "pp_lines PushButtonControl_h =
     replicate 20 (Code []) @ [Code '' '', Code [],
      IfNDef ''__QtHandles_PushButtonControl__'',
      Define ''__QtHandles_PushButtonControl__'' ''1'',
      Code [],
      Inclusion Quoted ''ButtonControl.h'',
      Code [],
      Code ''class QPushButton;'',
      Code [], Code [], Code [],
      Code ''namespace QtHandles'',
      Code ''{'',
      Code [], Code [], Code [],
      Code ''class PushButtonControl : public ButtonControl'',
      Code ''{'',
      Code ''public:'',
      Code ''  PushButtonControl (const graphics_object& go, QPushButton* btn);'',
      Code ''  ~PushButtonControl (void);'',
      Code [],
      Code ''  static PushButtonControl* create (const graphics_object& go);'',
      Code [],
      Code ''protected:'',
      Code ''  void update (int pId);'',
      Code ''};'',
      Code [], Code [], Code [],
      Code ''}; '',
      Code [], Code [], Code [],
      EndIf]"
  by code_simp

lemma guard_shape:
  "take 2 (dropWhile is_blank (pp_lines PushButtonControl_h)) =
     [IfNDef guard_macro, Define guard_macro ''1''] \<and>
   last (pp_lines PushButtonControl_h) = EndIf \<and>
   filter is_conditional (pp_lines PushButtonControl_h) = [IfNDef guard_macro, EndIf]"
  by code_simp

lemma tokens_blank: "tokens [] = []" "tokens '' '' = []"
  by (simp_all add: tokens_def flush_def is_space_def is_ident_char_def)

text \<open>
  With the guard macro defined, only the blank lines in front of \<open>#ifndef\<close> are
  processed, and they hold no token. The macro table and the included file's effect are
  arbitrary here.
\<close>

lemma preprocess_defined:
  "defined m guard_macro \<Longrightarrow>
   preprocess inc [] m (pp_lines PushButtonControl_h) =
     Some (replicate 20 (Code []) @ [Code '' '', Code []], m)"
  unfolding pp_lines_header by (simp add: guard_macro_def eval_nat_numeral)

lemma preprocess_fresh:
  "\<not> defined m guard_macro \<Longrightarrow>
   preprocess inc [] m (pp_lines PushButtonControl_h) =
     Some (filter reaches_compiler (pp_lines PushButtonControl_h),
           inc ''ButtonControl.h'' ((guard_macro, ''1'') # m))"
  unfolding pp_lines_header
  by (simp add: guard_macro_def eval_nat_numeral reaches_compiler_def)

lemma include_once_defined:
  "defined m guard_macro \<Longrightarrow> include_once inc m = Some ([], m)"
  by (simp add: include_once_def preprocess_defined eval_nat_numeral tokens_blank)

lemma include_once_fresh:
  "\<not> defined m guard_macro \<Longrightarrow>
   include_once inc m =
     Some (tu_items (filter reaches_compiler (pp_lines PushButtonControl_h)),
           inc ''ButtonControl.h'' ((guard_macro, ''1'') # m))"
  by (simp add: include_once_def preprocess_fresh)

lemma include_seq_defined:
  assumes "\<And>g m. g \<in> set gs \<Longrightarrow> defined m guard_macro \<Longrightarrow> defined (g m) guard_macro"
    and "defined m guard_macro"
  shows "\<exists>m'. include_seq inc gs m = Some ([], m')"
  using assms
proof (induction gs arbitrary: m)
  case Nil
  show ?case by simp
next
  case (Cons g gs)
  have d: "defined (g m) guard_macro"
    using Cons.prems by simp
  have "\<exists>m'. include_seq inc gs (g m) = Some ([], m')"
    using Cons.prems d by (intro Cons.IH) simp_all
  with d show ?case
    by (auto simp add: include_once_defined)
qed

lemma defined_cons: "defined ((n, v) # m) n"
  by (simp add: defined_def)

text \<open>The header's translation unit, evaluated from the text.\<close>

lemma header_items_eq:
  "header_items =
     Included Quoted ''ButtonControl.h'' #
     map Token
      [''class'', ''QPushButton'', '';'',
       ''namespace'', ''QtHandles'', ''{'',
       ''class'', ''PushButtonControl'', '':'', ''public'', ''ButtonControl'', ''{'',
       ''public'', '':'',
       ''PushButtonControl'', ''('', ''const'', ''graphics_object'', ''&'', ''go'', '','',
         ''QPushButton'', ''*'', ''btn'', '')'', '';'',
       ''~'', ''PushButtonControl'', ''('', ''void'', '')'', '';'',
       ''static'', ''PushButtonControl'', ''*'', ''create'', ''('', ''const'',
         ''graphics_object'', ''&'', ''go'', '')'', '';'',
       ''protected'', '':'',
       ''void'', ''update'', ''('', ''int'', ''pId'', '')'', '';'',
       ''}'', '';'',
       ''}'', '';'']"
  by code_simp

lemma header_macros_eq: "header_macros = [(guard_macro, ''1'')]"
  by code_simp

lemma header_decls_eq:
  "header_decls =
     Some
      [FwdClass ''QPushButton'',
       Namespace ''QtHandles''
        [ClassDef
          \<lparr>c_name = ''PushButtonControl'',
             c_bases = [(Public, ''ButtonControl'')],
             c_members =
               [\<lparr>m_access = Public, m_kind = Constructor,
                   m_name = ''PushButtonControl'', m_static = False,
                   m_virtual = False, m_type = None,
                   m_params =
                     [(\<lparr>ty_const = True, ty_name = ''graphics_object'',
                          ty_ind = Reference\<rparr>,
                       Some ''go''),
                      (\<lparr>ty_const = False, ty_name = ''QPushButton'',
                          ty_ind = Pointer\<rparr>,
                       Some ''btn'')],
                   m_trailing = [], m_defined = False\<rparr>,
                \<lparr>m_access = Public, m_kind = Destructor,
                   m_name = ''~PushButtonControl'', m_static = False,
                   m_virtual = False, m_type = None, m_params = [],
                   m_trailing = [], m_defined = False\<rparr>,
                \<lparr>m_access = Public, m_kind = Method, m_name = ''create'',
                   m_static = True, m_virtual = False,
                   m_type =
                     Some
                      \<lparr>ty_const = False, ty_name = ''PushButtonControl'',
                         ty_ind = Pointer\<rparr>,
                   m_params =
                     [(\<lparr>ty_const = True, ty_name = ''graphics_object'',
                          ty_ind = Reference\<rparr>,
                       Some ''go'')],
                   m_trailing = [], m_defined = False\<rparr>,
                \<lparr>m_access = Protected, m_kind = Method, m_name = ''update'',
                   m_static = False, m_virtual = False,
                   m_type =
                     Some
                      \<lparr>ty_const = False, ty_name = ''void'', ty_ind = ByValue\<rparr>,
                   m_params =
                     [(\<lparr>ty_const = False, ty_name = ''int'', ty_ind = ByValue\<rparr>,
                       Some ''pId'')],
                   m_trailing = [], m_defined = False\<rparr>]\<rparr>],
       EmptyDecl]"
  by code_simp

lemma the_class:
  "class_named ''PushButtonControl'' =
     Some
      \<lparr>c_name = ''PushButtonControl'',
         c_bases = [(Public, ''ButtonControl'')],
         c_members =
           [\<lparr>m_access = Public, m_kind = Constructor,
               m_name = ''PushButtonControl'', m_static = False,
               m_virtual = False, m_type = None,
               m_params =
                 [(const_ref ''graphics_object'', Some ''go''),
                  (pointer_to ''QPushButton'', Some ''btn'')],
               m_trailing = [], m_defined = False\<rparr>,
            \<lparr>m_access = Public, m_kind = Destructor,
               m_name = ''~PushButtonControl'', m_static = False,
               m_virtual = False, m_type = None, m_params = [],
               m_trailing = [], m_defined = False\<rparr>,
            \<lparr>m_access = Public, m_kind = Method, m_name = ''create'',
               m_static = True, m_virtual = False,
               m_type = Some (pointer_to ''PushButtonControl''),
               m_params = [(const_ref ''graphics_object'', Some ''go'')],
               m_trailing = [], m_defined = False\<rparr>,
            \<lparr>m_access = Protected, m_kind = Method, m_name = ''update'',
               m_static = False, m_virtual = False,
               m_type = Some (by_value ''void''),
               m_params = [(by_value ''int'', Some ''pId'')],
               m_trailing = [], m_defined = False\<rparr>]\<rparr>"
  by (simp add: class_named_def header_classes_def header_decls_eq
      const_ref_def pointer_to_def by_value_def)

section \<open>Properties of the header\<close>

text \<open>
  C1: the class \<open>PushButtonControl\<close> declares exactly four members and nothing else: a
  public constructor, a public destructor, a public static member function \<open>create\<close>
  and a protected member function \<open>update\<close>. None of them is declared with a body, and
  none is a data member. The list below is the whole member list of the class, in the
  order of the source, each with its access, kind, \<open>static\<close> flag, name and whether it
  has a body.
\<close>

theorem class_declares_four_members:
  "map_option
     (\<lambda>c. map (\<lambda>m. (m_access m, m_kind m, m_static m, m_name m, m_defined m)) (c_members c))
     (class_named ''PushButtonControl'') =
   Some [(Public, Constructor, False, ''PushButtonControl'', False),
         (Public, Destructor, False, ''~PushButtonControl'', False),
         (Public, Method, True, ''create'', False),
         (Protected, Method, False, ''update'', False)]"
  by (simp add: the_class)

text \<open>
  C2: \<open>PushButtonControl\<close> derives publicly from \<open>ButtonControl\<close>, its only base class.
\<close>

theorem derives_publicly_from_ButtonControl:
  "map_option c_bases (class_named ''PushButtonControl'') = Some [(Public, ''ButtonControl'')]"
  by (simp add: the_class)

text \<open>
  C3: the class has one constructor, and it takes exactly two parameters: a const
  reference to \<open>graphics_object\<close> and a pointer to \<open>QPushButton\<close>.
\<close>

theorem constructor_parameters:
  "map_option
     (\<lambda>c. map m_params (filter (\<lambda>m. m_kind m = Constructor) (c_members c)))
     (class_named ''PushButtonControl'') =
   Some [[(const_ref ''graphics_object'', Some ''go''),
          (pointer_to ''QPushButton'', Some ''btn'')]]"
  by (simp add: the_class)

text \<open>
  C4: the member \<open>create\<close> is a static member function that takes a single parameter,
  a const reference to \<open>graphics_object\<close>, and returns a pointer to
  \<open>PushButtonControl\<close>.
\<close>

theorem create_signature:
  "map_option
     (\<lambda>c. map (\<lambda>m. (m_kind m, m_static m, m_type m, m_params m))
            (filter (\<lambda>m. m_name m = ''create'') (c_members c)))
     (class_named ''PushButtonControl'') =
   Some [(Method, True, Some (pointer_to ''PushButtonControl''),
          [(const_ref ''graphics_object'', Some ''go'')])]"
  by (simp add: the_class)

text \<open>
  C6: no member declares an error path. For every member, in the order of the source:
  its name, its return type, its parameter types, the tokens after its parameter list
  and whether these hold an exception specification. The constructor and the destructor
  have no return type; \<open>create\<close> returns a pointer to the class; \<open>update\<close> returns
  \<open>void\<close>; the parameters are the graphics object, the widget pointer and an \<open>int\<close>;
  nothing follows any parameter list, so no member has an exception specification.
\<close>

theorem no_declared_error_path:
  "map_option
     (\<lambda>c. map (\<lambda>m. (m_name m, m_type m, map fst (m_params m), m_trailing m, exception_spec m))
            (c_members c))
     (class_named ''PushButtonControl'') =
   Some [(''PushButtonControl'', None,
            [const_ref ''graphics_object'', pointer_to ''QPushButton''], [], False),
         (''~PushButtonControl'', None, [], [], False),
         (''create'', Some (pointer_to ''PushButtonControl''),
            [const_ref ''graphics_object''], [], False),
         (''update'', Some (by_value ''void''), [by_value ''int''], [], False)]"
  by (simp add: the_class exception_spec_def)

text \<open>
  C7: the source file is exactly 55 lines long (54 lines ended by a newline character
  and a last line, \<open>#endif\<close>, that is not).
\<close>

theorem header_line_count: "length PushButtonControl_h = 55"
  by (simp add: PushButtonControl_h_def)

text \<open>
  C8, as it stands, fails: repeated inclusion is not idempotent in every translation
  unit. With \<open>#undef __QtHandles_PushButtonControl__\<close> between two inclusions the
  header's declarations reach the compiler a second time: 114 items instead of the 57 of
  one inclusion (56 tokens and the inclusion of \<open>ButtonControl.h\<close>).
\<close>

theorem include_guard_undef_counterexample:
  "map_option fst
     (include_seq no_effect
        [run_lines no_effect [],
         run_lines no_effect [''#undef __QtHandles_PushButtonControl__'']] []) \<noteq>
   map_option fst (include_once no_effect (run_lines no_effect [] [])) \<and>
   map_option (length \<circ> fst)
     (include_seq no_effect
        [run_lines no_effect [],
         run_lines no_effect [''#undef __QtHandles_PushButtonControl__'']] []) = Some 114 \<and>
   map_option (length \<circ> fst) (include_once no_effect (run_lines no_effect [] [])) = Some 57"
  by code_simp

text \<open>
  C8, amended: the header is idempotent under repeated inclusion as long as the guard
  macro stays defined. Its first two lines that are not blank after comment removal are
  \<open>#ifndef __QtHandles_PushButtonControl__\<close> and
  \<open>#define __QtHandles_PushButtonControl__ 1\<close>, its last line is \<open>#endif\<close>, and it has
  no other conditional directive. Provided the included file \<open>ButtonControl.h\<close> and the
  code between the inclusions leave the guard macro defined, including the header any
  number of times after the first gives the compiler the same tokens and inclusions as
  including it once; this holds from every macro table and whatever the code in front
  of the first inclusion does, and the inclusion never fails.
\<close>

theorem include_guard_idempotent:
  assumes keeps:
    "\<And>m. defined m guard_macro \<Longrightarrow> defined (inc ''ButtonControl.h'' m) guard_macro"
  assumes between:
    "\<And>g m. g \<in> set gs \<Longrightarrow> defined m guard_macro \<Longrightarrow> defined (g m) guard_macro"
  shows "take 2 (dropWhile is_blank (pp_lines PushButtonControl_h)) =
           [IfNDef guard_macro, Define guard_macro ''1''] \<and>
         last (pp_lines PushButtonControl_h) = EndIf \<and>
         filter is_conditional (pp_lines PushButtonControl_h) = [IfNDef guard_macro, EndIf] \<and>
         map_option fst (include_seq inc (g0 # gs) m) =
           map_option fst (include_once inc (g0 m)) \<and>
         include_once inc (g0 m) \<noteq> None"
proof -
  obtain out m' where once: "include_once inc (g0 m) = Some (out, m')"
    and d: "defined m' guard_macro"
  proof (cases "defined (g0 m) guard_macro")
    case True
    then show ?thesis
      using that by (simp add: include_once_defined)
  next
    case False
    have "defined (inc ''ButtonControl.h'' ((guard_macro, ''1'') # g0 m)) guard_macro"
      by (rule keeps) (rule defined_cons)
    with False show ?thesis
      using that by (simp add: include_once_fresh)
  qed
  obtain m'' where "include_seq inc gs m' = Some ([], m'')"
    using include_seq_defined [of gs m' inc] between d by blast
  with once have "map_option fst (include_seq inc (g0 # gs) m) =
      map_option fst (include_once inc (g0 m)) \<and> include_once inc (g0 m) \<noteq> None"
    by simp
  with guard_shape show ?thesis by simp
qed

text \<open>
  An instance: the included file defines a macro of its own, the macro table starts with
  one entry, and the header is included three times, with a macro defined between the
  second and the third inclusion.
\<close>

theorem include_guard_idempotent_witness:
  "map_option fst
     (include_seq (\<lambda>f m. (''BUTTONCONTROL_H'', ''1'') # m)
        [\<lambda>m. m, \<lambda>m. m, \<lambda>m. (''M_PI'', ''3'') # m] [(''NDEBUG'', [])]) =
   map_option fst
     (include_once (\<lambda>f m. (''BUTTONCONTROL_H'', ''1'') # m) [(''NDEBUG'', [])]) \<and>
   include_once (\<lambda>f m. (''BUTTONCONTROL_H'', ''1'') # m) [(''NDEBUG'', [])] \<noteq> None"
proof -
  let ?inc = "\<lambda>(f::string) (m::macros). (''BUTTONCONTROL_H'', ''1'') # m"
  let ?gs = "[\<lambda>m::macros. m, \<lambda>m. (''M_PI'', ''3'') # m]"
  have keeps: "defined m guard_macro \<Longrightarrow> defined (?inc ''ButtonControl.h'' m) guard_macro"
    for m
    by (simp add: defined_def)
  have between: "g \<in> set ?gs \<Longrightarrow> defined m guard_macro \<Longrightarrow> defined (g m) guard_macro"
    for g m
    by (auto simp add: defined_def)
  show ?thesis
    using include_guard_idempotent [of ?inc ?gs "\<lambda>m. m" "[(''NDEBUG'', [])]"] keeps between
    by simp
qed

text \<open>
  C9: the header's declarations at global scope are the forward declaration of
  \<open>QPushButton\<close>, the namespace \<open>QtHandles\<close> and an empty declaration (the \<open>;\<close> after
  the namespace's closing brace). The only class the header defines is inside the
  namespace: its qualified name is \<open>QtHandles::PushButtonControl\<close>. The only macro the
  header defines is the guard macro, with the replacement text \<open>1\<close>.
\<close>

theorem declarations_in_namespace:
  "(\<exists>c. header_decls =
          Some [FwdClass ''QPushButton'', Namespace ''QtHandles'' [ClassDef c], EmptyDecl]) \<and>
   map (\<lambda>(ns, c). (ns, c_name c)) header_classes = [([''QtHandles''], ''PushButtonControl'')] \<and>
   header_macros = [(guard_macro, ''1'')]"
  by (simp add: header_decls_eq header_classes_def header_macros_eq)

text \<open>
  C10: the token \<open>QPushButton\<close> occurs twice in the header's code: in the forward
  declaration at global scope, and in the constructor's second parameter (position 1,
  counting from 0), where it is used through a pointer. The header's only \<open>#include\<close>
  names \<open>"ButtonControl.h"\<close>.
\<close>

theorem QPushButton_only_forward_declared:
  "filter (\<lambda>t. t = ''QPushButton'') (code_tokens header_items) =
     [''QPushButton'', ''QPushButton''] \<and>
   map_option (filter (\<lambda>d. d = FwdClass ''QPushButton'')) header_decls =
     Some [FwdClass ''QPushButton''] \<and>
   map_option (param_uses ''QPushButton'') (class_named ''PushButtonControl'') =
     Some [(''PushButtonControl'', 1, Pointer)] \<and>
   filter is_inclusion (pp_lines PushButtonControl_h) = [Inclusion Quoted ''ButtonControl.h'']"
proof (intro conjI)
  show "filter (\<lambda>t. t = ''QPushButton'') (code_tokens header_items) =
          [''QPushButton'', ''QPushButton'']"
    by (simp add: header_items_eq)
  show "map_option (filter (\<lambda>d. d = FwdClass ''QPushButton'')) header_decls =
          Some [FwdClass ''QPushButton'']"
    by (simp add: header_decls_eq)
  show "map_option (param_uses ''QPushButton'') (class_named ''PushButtonControl'') =
          Some [(''PushButtonControl'', 1, Pointer)]"
    by (simp add: the_class param_uses_def const_ref_def pointer_to_def by_value_def)
  show "filter is_inclusion (pp_lines PushButtonControl_h) =
          [Inclusion Quoted ''ButtonControl.h'']"
    by (simp add: pp_lines_header is_inclusion_def)
qed

end
